theory Spec2Isabelle
  imports Complex_Main "HOL-Library.Dlist"
begin

section \<open>Python errors and float64 values\<close>

text \<open>
  The exceptions that the estimator's three operations can raise. \<open>KeyError\<close> carries its
  message; \<open>TypeError\<close> is what subscripting \<open>None\<close> raises; \<open>ZeroDivisionError\<close> is
  what Python's own float division raises.
\<close>

datatype py_error = KeyError string | TypeError | IndexError | ZeroDivisionError

text \<open>
  Floats are modelled in exact arithmetic: a finite value is a real number. numpy's float64
  division and logarithm do not raise on a zero divisor or a non-positive argument, they
  return an infinity or a NaN (and print a RuntimeWarning), so these values are part of
  the model. The rounding of float64 is not: a product or quotient of finite values is the
  exact one, also where float64 would round it to the nearest representable value or, below
  its least positive value \<open>2^-1074\<close>, to \<open>0.0\<close>.
\<close>

datatype npfloat = Val real | PosInf | NegInf | NaN

text \<open>\<open>x / d\<close> for a float64 \<open>x\<close> and a Python int \<open>d\<close>.\<close>

fun np_true_divide :: "npfloat \<Rightarrow> int \<Rightarrow> npfloat" where
  "np_true_divide (Val x) d =
     (if d \<noteq> 0 then Val (x / real_of_int d)
      else if 0 < x then PosInf else if x < 0 then NegInf else NaN)"
| "np_true_divide PosInf d = (if 0 \<le> d then PosInf else NegInf)"
| "np_true_divide NegInf d = (if 0 \<le> d then NegInf else PosInf)"
| "np_true_divide NaN d = NaN"

text \<open>The test \<open>x > 0\<close>; every comparison with NaN is false.\<close>

fun np_gt_zero :: "npfloat \<Rightarrow> bool" where
  "np_gt_zero (Val x) = (0 < x)"
| "np_gt_zero PosInf = True"
| "np_gt_zero NegInf = False"
| "np_gt_zero NaN = False"

text \<open>\<open>a * x\<close> for a finite Python float \<open>a\<close> and a float64 \<open>x\<close>.\<close>

fun np_multiply :: "real \<Rightarrow> npfloat \<Rightarrow> npfloat" where
  "np_multiply a (Val x) = Val (a * x)"
| "np_multiply a PosInf = (if 0 < a then PosInf else if a < 0 then NegInf else NaN)"
| "np_multiply a NegInf = (if 0 < a then NegInf else if a < 0 then PosInf else NaN)"
| "np_multiply a NaN = NaN"

text \<open>\<open>np.log\<close>, the natural logarithm: \<open>-inf\<close> at zero and NaN below it.\<close>

fun np_log :: "npfloat \<Rightarrow> npfloat" where
  "np_log (Val x) = (if 0 < x then Val (ln x) else if x = 0 then NegInf else NaN)"
| "np_log PosInf = PosInf"
| "np_log NegInf = NaN"
| "np_log NaN = NaN"

fun np_add :: "npfloat \<Rightarrow> npfloat \<Rightarrow> npfloat" where
  "np_add (Val x) (Val y) = Val (x + y)"
| "np_add NaN y = NaN"
| "np_add x NaN = NaN"
| "np_add PosInf NegInf = NaN"
| "np_add NegInf PosInf = NaN"
| "np_add PosInf y = PosInf"
| "np_add x PosInf = PosInf"
| "np_add NegInf y = NegInf"
| "np_add x NegInf = NegInf"

section \<open>The Vocabulary collaborator\<close>

text \<open>
  Modelled from the spec: the class \<open>Vocabulary\<close> is imported by the estimator but is not
  part of the source at hand. The spec describes it as an ordered set of unique words, each
  word mapped to a unique integer id in \<open>[0, size)\<close>, with a lookup \<open>get_word_id\<close> that
  fails with the message \<open>Word {word} not in the vocabulary\<close> on an absent word. It is
  modelled as a list without duplicates; the id of a word is its position.
\<close>

type_synonym vocabulary = "string dlist"

text \<open>
  Modelled from the spec: the attribute \<open>size\<close> of the absent class, the number of
  distinct words.
\<close>

definition size_vocabulary :: "vocabulary \<Rightarrow> nat" where
  "size_vocabulary v = length (list_of_dlist v)"

text \<open>
  Modelled from the spec: the method \<open>get_word_id\<close> of the absent class. The id is the
  position of the word; an absent word raises the lookup error with the word in its message.
\<close>

fun index_of :: "string list \<Rightarrow> string \<Rightarrow> nat option" where
  "index_of [] word = None"
| "index_of (x # xs) word =
     (if x = word then Some 0 else map_option Suc (index_of xs word))"

definition get_word_id :: "vocabulary \<Rightarrow> string \<Rightarrow> py_error + nat" where
  "get_word_id v word =
     (case index_of (list_of_dlist v) word of
        None \<Rightarrow> Inl (KeyError (''Word '' @ word @ '' not in the vocabulary''))
      | Some i \<Rightarrow> Inr i)"

section \<open>The estimator\<close>

text \<open>
  The attributes of an \<open>MLEstimator\<close> object. \<open>count_V\<close> is \<open>None\<close> until \<open>fit\<close>
  creates the array; \<open>np.zeros\<close> makes an array of floats, so its entries are reals.
  \<open>epsilon_unseen_proba\<close> is a finite float, of any sign and size; the two counters
  are Python ints.
\<close>

record MLEstimator =
  vocab :: vocabulary
  epsilon_unseen_proba :: real
  total_count :: int
  unseen_count :: int
  count_V :: "real list option"

text \<open>\<open>__init__\<close>: stores its two arguments and the initial state; nothing is checked.\<close>

definition init :: "vocabulary \<Rightarrow> real \<Rightarrow> MLEstimator" where
  "init v eps =
     \<lparr>vocab = v, epsilon_unseen_proba = eps, total_count = 0, unseen_count = 0,
      count_V = None\<rparr>"

text \<open>The default value of the parameter \<open>epsilon_unseen_proba\<close>.\<close>

definition init_default :: "vocabulary \<Rightarrow> MLEstimator" where
  "init_default v = init v (1 / 1000000)"

text \<open>
  The first loop of \<open>fit\<close>: one increment per training word. A word that the vocabulary
  does not know stops the loop with the lookup's error, and the increments made so far stay
  in the array.
\<close>

fun count_words :: "vocabulary \<Rightarrow> real list \<Rightarrow> string list \<Rightarrow> real list \<times> py_error option" where
  "count_words v cv [] = (cv, None)"
| "count_words v cv (word # rest) =
     (case get_word_id v word of
        Inl e \<Rightarrow> (cv, Some e)
      | Inr index \<Rightarrow>
          if index < length cv
          then count_words v (cv[index := cv ! index + 1]) rest
          else (cv, Some IndexError))"

text \<open>The second loop of \<open>fit\<close>: one increment of \<open>unseen_count\<close> per zero entry.\<close>

fun count_unseen :: "real list \<Rightarrow> int \<Rightarrow> int" where
  "count_unseen [] u = u"
| "count_unseen (prob # rest) u = count_unseen rest (if prob = 0 then u + 1 else u)"

text \<open>
  \<open>fit\<close> returns the object as the call leaves it, and the exception if one was raised.
\<close>

definition fit :: "MLEstimator \<Rightarrow> string list \<Rightarrow> MLEstimator \<times> py_error option" where
  "fit self word_list =
     (let s1 = self\<lparr>count_V := Some (replicate (size_vocabulary (vocab self)) 0),
                    total_count := 0, unseen_count := 0\<rparr>;
          s2 = s1\<lparr>total_count := int (length word_list)\<rparr>;
          (cv, raised) = count_words (vocab s2)
                           (replicate (size_vocabulary (vocab self)) 0) word_list;
          s3 = s2\<lparr>count_V := Some cv\<rparr>
      in case raised of
           Some e \<Rightarrow> (s3, Some e)
         | None \<Rightarrow> (s3\<lparr>unseen_count := count_unseen cv (unseen_count s3)\<rparr>, None))"

text \<open>
  \<open>predict_proba\<close>: the lookup comes first, then the subscript of \<open>count_V\<close>, then the
  float64 division, which never raises.
\<close>

definition predict_proba :: "MLEstimator \<Rightarrow> string \<Rightarrow> py_error + npfloat" where
  "predict_proba self word =
     (case get_word_id (vocab self) word of
        Inl e \<Rightarrow> Inl e
      | Inr index \<Rightarrow>
         (case count_V self of
            None \<Rightarrow> Inl TypeError
          | Some cv \<Rightarrow>
              if length cv \<le> index then Inl IndexError
              else
                let ml = np_true_divide (Val (cv ! index)) (total_count self)
                in if np_gt_zero ml
                   then Inr (np_multiply (1 - epsilon_unseen_proba self) ml)
                   else if 0 < unseen_count self
                   then Inr (Val (epsilon_unseen_proba self
                                   * (1 / real_of_int (unseen_count self))))
                   else Inr (Val 0)))"

text \<open>
  The branch of \<open>predict_proba\<close> that produces the result: the same lookups and the same
  two tests, returning the name of the branch instead of its value.
\<close>

datatype branch = Observed | Unseen | Fallback

definition predict_proba_branch :: "MLEstimator \<Rightarrow> string \<Rightarrow> py_error + branch" where
  "predict_proba_branch self word =
     (case get_word_id (vocab self) word of
        Inl e \<Rightarrow> Inl e
      | Inr index \<Rightarrow>
         (case count_V self of
            None \<Rightarrow> Inl TypeError
          | Some cv \<Rightarrow>
              if length cv \<le> index then Inl IndexError
              else
                let ml = np_true_divide (Val (cv ! index)) (total_count self)
                in if np_gt_zero ml then Inr Observed
                   else if 0 < unseen_count self then Inr Unseen
                   else Inr Fallback))"

text \<open>
  \<open>score\<close>: the running total starts as the Python float \<open>0.0\<close> and becomes a float64 with
  the first addition. Only an empty list leaves it a Python float, whose division by
  \<open>len(word_list) = 0\<close> raises.
\<close>

fun score_loop :: "MLEstimator \<Rightarrow> string list \<Rightarrow> npfloat \<Rightarrow> py_error + npfloat" where
  "score_loop self [] total_log_proba = Inr total_log_proba"
| "score_loop self (word # rest) total_log_proba =
     (case predict_proba self word of
        Inl e \<Rightarrow> Inl e
      | Inr p \<Rightarrow> score_loop self rest (np_add total_log_proba (np_log p)))"

definition score :: "MLEstimator \<Rightarrow> string list \<Rightarrow> py_error + npfloat" where
  "score self word_list =
     (case score_loop self word_list (Val 0) of
        Inl e \<Rightarrow> Inl e
      | Inr total_log_proba \<Rightarrow>
          if length word_list = 0 then Inl ZeroDivisionError
          else Inr (np_true_divide total_log_proba (int (length word_list))))"

text \<open>
  The smoothing formula in closed form, in terms of the training list: the value that
  steps 2 and 3 of the algorithm give a vocabulary word. It is used to state and prove the
  properties of the probabilities; the estimator itself is \<open>predict_proba\<close> above.
\<close>

definition smoothed :: "real \<Rightarrow> string list \<Rightarrow> string list \<Rightarrow> string \<Rightarrow> real" where
  "smoothed eps ws L w =
     (if w \<in> set L then (1 - eps) * (real (count_list L w) / real (length L))
      else eps * (1 / real (length (filter (\<lambda>w. w \<notin> set L) ws))))"

section \<open>Lookup in the vocabulary\<close>

lemma index_of_None: "index_of ws w = None \<longleftrightarrow> w \<notin> set ws"
  by (induction ws) auto

lemma index_of_Some: "index_of ws w = Some i \<Longrightarrow> i < length ws \<and> ws ! i = w"
  by (induction ws arbitrary: i) (auto split: if_splits)

lemma index_of_nth: "distinct ws \<Longrightarrow> i < length ws \<Longrightarrow> index_of ws (ws ! i) = Some i"
proof (induction ws arbitrary: i)
  case Nil
  then show ?case by simp
next
  case (Cons x xs)
  show ?case
  proof (cases i)
    case 0
    then show ?thesis by simp
  next
    case (Suc j)
    with Cons.prems have "j < length xs" and "xs ! j \<noteq> x" and "distinct xs"
      by auto
    with Cons.IH [of j] Suc show ?thesis by auto
  qed
qed

lemma get_word_id_absent:
  "w \<notin> set (list_of_dlist v) \<Longrightarrow>
   get_word_id v w = Inl (KeyError (''Word '' @ w @ '' not in the vocabulary''))"
  using index_of_None [of "list_of_dlist v" w] by (simp add: get_word_id_def)

lemma get_word_id_present:
  assumes "w \<in> set (list_of_dlist v)"
  obtains i where "get_word_id v w = Inr i" and "i < size_vocabulary v"
    and "list_of_dlist v ! i = w"
proof -
  from assms obtain i where i: "index_of (list_of_dlist v) w = Some i"
    using index_of_None [of "list_of_dlist v" w] by (cases "index_of (list_of_dlist v) w") auto
  from index_of_Some [OF i] i that show thesis
    by (simp add: get_word_id_def size_vocabulary_def)
qed

lemma get_word_id_nth:
  "i < size_vocabulary v \<Longrightarrow> get_word_id v (list_of_dlist v ! i) = Inr i"
  using index_of_nth [of "list_of_dlist v" i]
  by (simp add: get_word_id_def size_vocabulary_def)

section \<open>What a successful fit leaves behind\<close>

lemma sum_list_bump:
  "i < length cv \<Longrightarrow> sum_list (cv[i := cv ! i + 1]) = sum_list cv + (1::real)"
proof (induction cv arbitrary: i)
  case Nil
  then show ?case by simp
next
  case (Cons c cs)
  then show ?case by (cases i) simp_all
qed

lemma count_words_sum:
  "count_words v cv L = (cv', None) \<Longrightarrow> sum_list cv' = sum_list cv + real (length L)"
proof (induction L arbitrary: cv)
  case Nil
  then show ?case by simp
next
  case (Cons w rest)
  from Cons.prems obtain j where j: "get_word_id v w = Inr j" "j < length cv"
    and rest: "count_words v (cv[j := cv ! j + 1]) rest = (cv', None)"
    by (auto split: sum.splits if_splits)
  from Cons.IH [OF rest] sum_list_bump [OF j(2)] show ?case by simp
qed

lemma count_words_ok:
  assumes "set L \<subseteq> set (list_of_dlist v)" and "length cv = size_vocabulary v"
  shows "count_words v cv L
         = (map2 (\<lambda>c w. c + real (count_list L w)) cv (list_of_dlist v), None)"
  using assms
proof (induction L arbitrary: cv)
  case Nil
  then have "map2 (\<lambda>c w. c + real (count_list [] w)) cv (list_of_dlist v) = cv"
    by (intro nth_equalityI) (simp_all add: size_vocabulary_def)
  then show ?case by simp
next
  case (Cons w rest)
  let ?ws = "list_of_dlist v"
  from Cons.prems have "w \<in> set ?ws" by simp
  then obtain j where j: "get_word_id v w = Inr j" "j < size_vocabulary v" "?ws ! j = w"
    by (rule get_word_id_present)
  let ?cv1 = "cv[j := cv ! j + 1]"
  have len: "length ?cv1 = size_vocabulary v" using Cons.prems by simp
  have rest: "set rest \<subseteq> set ?ws" using Cons.prems by simp
  have "map2 (\<lambda>c w'. c + real (count_list rest w')) ?cv1 ?ws
        = map2 (\<lambda>c w'. c + real (count_list (w # rest) w')) cv ?ws"
  proof (rule nth_equalityI)
    show "length (map2 (\<lambda>c w'. c + real (count_list rest w')) ?cv1 ?ws)
          = length (map2 (\<lambda>c w'. c + real (count_list (w # rest) w')) cv ?ws)"
      by simp
  next
    fix i
    assume "i < length (map2 (\<lambda>c w'. c + real (count_list rest w')) ?cv1 ?ws)"
    then have i: "i < length cv" "i < length ?ws" by simp_all
    show "map2 (\<lambda>c w'. c + real (count_list rest w')) ?cv1 ?ws ! i
          = map2 (\<lambda>c w'. c + real (count_list (w # rest) w')) cv ?ws ! i"
    proof (cases "i = j")
      case True
      with i j show ?thesis by simp
    next
      case False
      with i j have "?ws ! i \<noteq> w"
        using nth_eq_iff_index_eq [of ?ws i j] by (simp add: size_vocabulary_def)
      with i False show ?thesis by auto
    qed
  qed
  with Cons.IH [OF rest len] j Cons.prems show ?case by simp
qed

lemma count_unseen_eq:
  "count_unseen cv u = u + int (length (filter (\<lambda>c. c = 0) cv))"
  by (induction cv arbitrary: u) simp_all

lemma count_words_zeros:
  assumes "set L \<subseteq> set (list_of_dlist v)"
  shows "count_words v (replicate (size_vocabulary v) 0) L
         = (map (\<lambda>w. real (count_list L w)) (list_of_dlist v), None)"
proof -
  have "map2 (\<lambda>c w. c + real (count_list L w)) (replicate (size_vocabulary v) 0) (list_of_dlist v)
        = map (\<lambda>w. real (count_list L w)) (list_of_dlist v)"
    by (intro nth_equalityI) (simp_all add: size_vocabulary_def)
  with count_words_ok [OF assms, of "replicate (size_vocabulary v) 0"] show ?thesis by simp
qed

lemma zero_entries:
  "length (filter (\<lambda>c. c = 0) (map (\<lambda>w. real (count_list L w)) ws))
   = length (filter (\<lambda>w. w \<notin> set L) ws)"
  by (induction ws) (simp_all add: count_list_0_iff)

lemma unseen_words:
  "count_unseen (map (\<lambda>w. real (count_list L w)) ws) 0
   = int (length (filter (\<lambda>w. w \<notin> set L) ws))"
  by (simp only: count_unseen_eq zero_entries)

lemma fit_ok:
  assumes "set L \<subseteq> set (list_of_dlist (vocab self))"
  shows "fit self L
    = (self\<lparr>count_V := Some (map (\<lambda>w. real (count_list L w)) (list_of_dlist (vocab self))),
            total_count := int (length L),
            unseen_count := int (length (filter (\<lambda>w. w \<notin> set L) (list_of_dlist (vocab self))))\<rparr>,
       None)"
  using count_words_zeros [OF assms]
  by (simp add: fit_def unseen_words)

lemma counts_sum:
  assumes "set L \<subseteq> set (list_of_dlist (v::vocabulary))"
  shows "sum_list (map (\<lambda>w. real (count_list L w)) (list_of_dlist v)) = real (length L)"
  using count_words_sum [OF count_words_zeros [OF assms]] by (simp add: sum_list_replicate)

text \<open>No call of \<open>fit\<close> touches the vocabulary or the epsilon.\<close>

lemma vocab_fit: "vocab (fst (fit self L)) = vocab self"
  by (simp add: fit_def Let_def split: prod.splits option.splits)

lemma epsilon_fit: "epsilon_unseen_proba (fst (fit self L)) = epsilon_unseen_proba self"
  by (simp add: fit_def Let_def split: prod.splits option.splits)

section \<open>Construction\<close>

text \<open>
  Claim C10. Construction returns an object for every real value of
  \<open>epsilon_unseen_proba\<close>, also outside the interval (0, 1): nothing is validated and no
  path raises. The object holds the vocabulary and the epsilon it was given, both counters
  at zero and no count array.
\<close>

theorem init_stores_arguments:
  "vocab (init v eps) = v \<and> epsilon_unseen_proba (init v eps) = eps
   \<and> total_count (init v eps) = 0 \<and> unseen_count (init v eps) = 0
   \<and> count_V (init v eps) = None"
  by (simp add: init_def)

theorem init_stores_arguments_witness:
  "epsilon_unseen_proba (init (Dlist [''a'', ''b'']) (- 3)) = - 3
   \<and> vocab (init (Dlist [''a'', ''b'']) (- 3)) = Dlist [''a'', ''b'']
   \<and> count_V (init (Dlist [''a'', ''b'']) (- 3)) = None
   \<and> total_count (init (Dlist [''a'', ''b'']) (- 3)) = 0
   \<and> unseen_count (init (Dlist [''a'', ''b'']) (- 3)) = 0"
  using init_stores_arguments [of "Dlist [''a'', ''b'']" "- 3"] by simp

section \<open>Words outside the vocabulary\<close>

text \<open>
  Claim C7. On a word that is not in the vocabulary, \<open>predict_proba\<close> fails with the
  lookup's \<open>KeyError\<close>, whose message is \<open>Word {word} not in the vocabulary\<close>. The lookup
  is the first thing the call does, so this holds in every state of the object: before any
  fit, after a fit, and after a fit that failed half way.
\<close>

theorem predict_proba_unknown_word:
  "word \<notin> set (list_of_dlist (vocab self)) \<Longrightarrow>
   predict_proba self word
     = Inl (KeyError (''Word '' @ word @ '' not in the vocabulary''))"
  by (simp add: predict_proba_def get_word_id_absent)

theorem predict_proba_unknown_word_witness:
  "''zz'' \<notin> set (list_of_dlist (vocab (fst (fit (init (Dlist [''a'', ''b'']) (1 / 10)) [''a'']))))
   \<and> ''zz'' \<notin> set (list_of_dlist (vocab (init (Dlist [''a'', ''b'']) (1 / 10))))
   \<and> predict_proba (fst (fit (init (Dlist [''a'', ''b'']) (1 / 10)) [''a''])) ''zz''
       = Inl (KeyError ''Word zz not in the vocabulary'')
   \<and> predict_proba (init (Dlist [''a'', ''b'']) (1 / 10)) ''zz''
       = Inl (KeyError ''Word zz not in the vocabulary'')"
proof -
  have h1: "''zz'' \<notin> set (list_of_dlist (vocab (fst (fit (init (Dlist [''a'', ''b'']) (1 / 10)) [''a'']))))"
    and h2: "''zz'' \<notin> set (list_of_dlist (vocab (init (Dlist [''a'', ''b'']) (1 / 10))))"
    by (simp_all add: vocab_fit init_def)
  from predict_proba_unknown_word [OF h1] predict_proba_unknown_word [OF h2] h1 h2
  show ?thesis by simp
qed

section \<open>Fitting again\<close>

lemma fit_same_configuration:
  fixes a b :: MLEstimator
  assumes "vocab a = vocab b" and "epsilon_unseen_proba a = epsilon_unseen_proba b"
  shows "fit a L = fit b L"
proof -
  have "a\<lparr>count_V := x, total_count := y, unseen_count := z\<rparr>
        = b\<lparr>count_V := x, total_count := y, unseen_count := z\<rparr>" for x y z
    using assms by (cases a, cases b) simp
  then show ?thesis
    using assms by (simp add: fit_def Let_def split: prod.splits option.splits)
qed

text \<open>
  Claim C5. A call of \<open>fit\<close> on an estimator that an earlier call of \<open>fit\<close> has
  already filled gives exactly what the same call gives on a freshly constructed estimator
  with the same vocabulary and epsilon: the same object (\<open>count_V\<close>, \<open>total_count\<close>,
  \<open>unseen_count\<close> included) and the same outcome. Nothing of the first training list is
  left. This holds for every first list, also one on which the first call failed, and for
  every second list.
\<close>

theorem fit_replaces_prior_state:
  fixes self :: MLEstimator
  shows "fit (fst (fit self L1)) L2 = fit (init (vocab self) (epsilon_unseen_proba self)) L2"
  by (rule fit_same_configuration) (simp_all add: vocab_fit epsilon_fit init_def)

theorem fit_replaces_prior_state_witness:
  "fit (fst (fit (init (Dlist [''a'', ''b'']) (1 / 10)) [''a'', ''a'', ''b''])) [''b'']
   = (\<lparr>vocab = Dlist [''a'', ''b''], epsilon_unseen_proba = 1 / 10,
       total_count = 1, unseen_count = 1, count_V = Some [0, 1]\<rparr>, None)"
  using fit_replaces_prior_state
          [of "init (Dlist [''a'', ''b'']) (1 / 10)" "[''a'', ''a'', ''b'']" "[''b'']"]
  by (simp add: fit_def init_def get_word_id_def size_vocabulary_def)

section \<open>The state after a successful fit\<close>

text \<open>
  Claim C4. When every word of the training list \<open>L\<close> is in the vocabulary, \<open>fit\<close>
  returns normally and leaves \<open>total_count = len(L)\<close>, an array \<open>count_V\<close> with one
  entry per vocabulary id whose sum is \<open>total_count\<close> and whose entry \<open>i\<close> is the number
  of occurrences in \<open>L\<close> of the word with id \<open>i\<close>, and \<open>unseen_count\<close> equal to the
  number of ids whose entry is zero.
\<close>

theorem fit_postcondition:
  assumes "set L \<subseteq> set (list_of_dlist (vocab self))"
  shows "snd (fit self L) = None
    \<and> total_count (fst (fit self L)) = int (length L)
    \<and> (\<exists>cv. count_V (fst (fit self L)) = Some cv
          \<and> length cv = size_vocabulary (vocab self)
          \<and> sum_list cv = real_of_int (total_count (fst (fit self L)))
          \<and> (\<forall>i<size_vocabulary (vocab self).
                cv ! i = real (count_list L (list_of_dlist (vocab self) ! i)))
          \<and> unseen_count (fst (fit self L))
              = int (card {i. i < size_vocabulary (vocab self) \<and> cv ! i = 0}))"
proof -
  let ?ws = "list_of_dlist (vocab self)"
  let ?cv = "map (\<lambda>w. real (count_list L w)) ?ws"
  have zeros: "length (filter (\<lambda>w. w \<notin> set L) ?ws)
               = card {i. i < size_vocabulary (vocab self) \<and> ?cv ! i = 0}"
  proof -
    have "length (filter (\<lambda>w. w \<notin> set L) ?ws) = length (filter (\<lambda>c. c = 0) ?cv)"
      by (simp only: zero_entries)
    also have "\<dots> = card {i. i < length ?cv \<and> ?cv ! i = 0}"
      by (rule length_filter_conv_card)
    finally show ?thesis by (simp add: size_vocabulary_def)
  qed
  have "count_V (fst (fit self L)) = Some ?cv"
    by (simp add: fit_ok [OF assms])
  moreover have "length ?cv = size_vocabulary (vocab self)"
    by (simp add: size_vocabulary_def)
  moreover have "sum_list ?cv = real_of_int (total_count (fst (fit self L)))"
    by (simp add: fit_ok [OF assms] counts_sum [OF assms])
  moreover have "\<forall>i<size_vocabulary (vocab self). ?cv ! i = real (count_list L (?ws ! i))"
    by (simp add: size_vocabulary_def)
  moreover have "unseen_count (fst (fit self L))
                 = int (card {i. i < size_vocabulary (vocab self) \<and> ?cv ! i = 0})"
    by (simp only: fit_ok [OF assms] zeros) simp
  ultimately have "\<exists>cv. count_V (fst (fit self L)) = Some cv
          \<and> length cv = size_vocabulary (vocab self)
          \<and> sum_list cv = real_of_int (total_count (fst (fit self L)))
          \<and> (\<forall>i<size_vocabulary (vocab self).
                cv ! i = real (count_list L (list_of_dlist (vocab self) ! i)))
          \<and> unseen_count (fst (fit self L))
              = int (card {i. i < size_vocabulary (vocab self) \<and> cv ! i = 0})"
    by blast
  moreover have "snd (fit self L) = None" and "total_count (fst (fit self L)) = int (length L)"
    by (simp_all add: fit_ok [OF assms])
  ultimately show ?thesis by blast
qed

theorem fit_postcondition_witness:
  "set [''a'', ''a'', ''b''] \<subseteq> set (list_of_dlist (vocab (init (Dlist [''a'', ''b'', ''c'']) (1 / 10))))
   \<and> fit (init (Dlist [''a'', ''b'', ''c'']) (1 / 10)) [''a'', ''a'', ''b'']
       = (\<lparr>vocab = Dlist [''a'', ''b'', ''c''], epsilon_unseen_proba = 1 / 10,
           total_count = 3, unseen_count = 1, count_V = Some [2, 1, 0]\<rparr>, None)
   \<and> unseen_count (fst (fit (init (Dlist [''a'', ''b'', ''c'']) (1 / 10)) [''a'', ''a'', ''b'']))
       = int (card {i. i < size_vocabulary (vocab (init (Dlist [''a'', ''b'', ''c'']) (1 / 10)))
                       \<and> [2, 1, 0 :: real] ! i = 0})"
proof -
  have h: "set [''a'', ''a'', ''b'']
           \<subseteq> set (list_of_dlist (vocab (init (Dlist [''a'', ''b'', ''c'']) (1 / 10))))"
    by (simp add: init_def)
  have e: "fit (init (Dlist [''a'', ''b'', ''c'']) (1 / 10)) [''a'', ''a'', ''b'']
       = (\<lparr>vocab = Dlist [''a'', ''b'', ''c''], epsilon_unseen_proba = 1 / 10,
           total_count = 3, unseen_count = 1, count_V = Some [2, 1, 0]\<rparr>, None)"
    by (simp add: fit_def init_def get_word_id_def size_vocabulary_def)
  from fit_postcondition [OF h] e h show ?thesis
    by auto
qed

section \<open>Probabilities of vocabulary words after a fit\<close>

lemma fitted_ratio:
  assumes "set L \<subseteq> set (list_of_dlist (vocab self))"
    and "w \<in> set (list_of_dlist (vocab self))"
  shows "predict_proba (fst (fit self L)) w =
     (let ml = np_true_divide (Val (real (count_list L w))) (int (length L));
          u = int (length (filter (\<lambda>w. w \<notin> set L) (list_of_dlist (vocab self))))
      in if np_gt_zero ml then Inr (np_multiply (1 - epsilon_unseen_proba self) ml)
         else if 0 < u then Inr (Val (epsilon_unseen_proba self * (1 / real_of_int u)))
         else Inr (Val 0))"
proof -
  from assms(2) obtain j where j: "get_word_id (vocab self) w = Inr j"
    "j < size_vocabulary (vocab self)" "list_of_dlist (vocab self) ! j = w"
    by (rule get_word_id_present)
  then show ?thesis
    by (simp add: fit_ok [OF assms(1)] predict_proba_def size_vocabulary_def Let_def)
qed

lemma fitted_branch:
  assumes "set L \<subseteq> set (list_of_dlist (vocab self))"
    and "w \<in> set (list_of_dlist (vocab self))"
  shows "predict_proba_branch (fst (fit self L)) w =
     (let ml = np_true_divide (Val (real (count_list L w))) (int (length L));
          u = int (length (filter (\<lambda>w. w \<notin> set L) (list_of_dlist (vocab self))))
      in if np_gt_zero ml then Inr Observed
         else if 0 < u then Inr Unseen
         else Inr Fallback)"
proof -
  from assms(2) obtain j where j: "get_word_id (vocab self) w = Inr j"
    "j < size_vocabulary (vocab self)" "list_of_dlist (vocab self) ! j = w"
    by (rule get_word_id_present)
  then show ?thesis
    by (simp add: fit_ok [OF assms(1)] predict_proba_branch_def size_vocabulary_def Let_def)
qed

lemma unseen_positive:
  "w \<in> set ws \<Longrightarrow> w \<notin> set L \<Longrightarrow> 0 < length (filter (\<lambda>w. w \<notin> set L) ws)"
  by (induction ws) auto

lemma count_pos_iff: "0 < count_list L w \<longleftrightarrow> w \<in> set L"
  using count_list_0_iff [of L w] by auto

lemma predict_proba_fitted:
  assumes "set L \<subseteq> set (list_of_dlist (vocab self))"
    and "w \<in> set (list_of_dlist (vocab self))"
  shows "predict_proba (fst (fit self L)) w =
     (if w \<in> set L
      then Inr (Val ((1 - epsilon_unseen_proba self)
                      * (real (count_list L w) / real (length L))))
      else Inr (Val (epsilon_unseen_proba self
                      * (1 / real (length (filter (\<lambda>w. w \<notin> set L)
                                            (list_of_dlist (vocab self))))))))"
proof (cases "w \<in> set L")
  case True
  then have "L \<noteq> []" and "0 < count_list L w"
    by (auto simp: count_pos_iff)
  with True show ?thesis
    by (simp add: fitted_ratio [OF assms] Let_def)
next
  case False
  then have "count_list L w = 0" by simp
  with False unseen_positive [OF assms(2) False] show ?thesis
    by (simp add: fitted_ratio [OF assms] Let_def)
qed

lemma predict_proba_branch_fitted:
  assumes "set L \<subseteq> set (list_of_dlist (vocab self))"
    and "w \<in> set (list_of_dlist (vocab self))"
  shows "predict_proba_branch (fst (fit self L)) w
         = Inr (if w \<in> set L then Observed else Unseen)"
proof (cases "w \<in> set L")
  case True
  then have "L \<noteq> []" and "0 < count_list L w"
    by (auto simp: count_pos_iff)
  with True show ?thesis
    by (simp add: fitted_branch [OF assms] Let_def)
next
  case False
  then have "count_list L w = 0" by simp
  with False unseen_positive [OF assms(2) False] show ?thesis
    by (simp add: fitted_branch [OF assms] Let_def)
qed

text \<open>
  The example of the class docstring: \<open>0.45\<close> for the word seen twice in four, \<open>0.1\<close>
  for the only unseen word, and a \<open>KeyError\<close> outside the vocabulary.
\<close>

lemma docstring_example:
  "map (predict_proba
          (fst (fit (init (Dlist [''dinosaur'', ''trex'', ''stegosaurus'', ''known_unseen''])
                          (1 / 10))
                    [''dinosaur'', ''trex'', ''dinosaur'', ''stegosaurus''])))
       [''dinosaur'', ''known_unseen'', ''UNKNOWN_unseen'']
   = [Inr (Val (45 / 100)), Inr (Val (1 / 10)),
      Inl (KeyError ''Word UNKNOWN_unseen not in the vocabulary'')]"
  by (simp add: predict_proba_def fit_def init_def get_word_id_def size_vocabulary_def)

text \<open>
  Claim C2. After a fit on a training list of length \<open>n\<close>, a vocabulary word that
  occurs \<open>k > 0\<close> times in the list has \<open>predict_proba = (1 - epsilon) * k / n\<close>.
\<close>

theorem predict_proba_observed:
  assumes "set L \<subseteq> set (list_of_dlist (vocab self))"
    and "w \<in> set (list_of_dlist (vocab self))"
    and "count_list L w = k" and "0 < k" and "length L = n"
  shows "predict_proba (fst (fit self L)) w
         = Inr (Val ((1 - epsilon_unseen_proba self) * real k / real n))"
proof -
  from assms(3,4) have "w \<in> set L" by (simp add: count_pos_iff [symmetric])
  with assms(3,5) show ?thesis
    by (simp add: predict_proba_fitted [OF assms(1,2)])
qed

theorem predict_proba_observed_witness:
  "set [''a'', ''b'', ''a'', ''c''] \<subseteq> set (list_of_dlist (vocab (init (Dlist [''a'', ''b'', ''c'', ''d'']) (1 / 10))))
   \<and> ''a'' \<in> set (list_of_dlist (vocab (init (Dlist [''a'', ''b'', ''c'', ''d'']) (1 / 10))))
   \<and> count_list [''a'', ''b'', ''a'', ''c''] ''a'' = 2
   \<and> length [''a'', ''b'', ''a'', ''c''] = 4
   \<and> predict_proba (fst (fit (init (Dlist [''a'', ''b'', ''c'', ''d'']) (1 / 10))
                                [''a'', ''b'', ''a'', ''c''])) ''a''
       = Inr (Val (45 / 100))"
proof -
  have h1: "set [''a'', ''b'', ''a'', ''c'']
            \<subseteq> set (list_of_dlist (vocab (init (Dlist [''a'', ''b'', ''c'', ''d'']) (1 / 10))))"
    and h2: "''a'' \<in> set (list_of_dlist (vocab (init (Dlist [''a'', ''b'', ''c'', ''d'']) (1 / 10))))"
    and h3: "count_list [''a'', ''b'', ''a'', ''c''] ''a'' = 2"
    and h4: "(0::nat) < 2"
    and h5: "length [''a'', ''b'', ''a'', ''c''] = 4"
    by (simp_all add: init_def)
  from predict_proba_observed [OF h1 h2 h3 h4 h5] h1 h2 h3 h5 show ?thesis
    by (simp add: init_def)
qed



section \<open>The branch that answers\<close>

text \<open>
  The branch function follows \<open>predict_proba\<close>, and the last branch exists: a state
  that no fit produces reaches it.
\<close>

lemma branch_agrees:
  "predict_proba self w =
     (case predict_proba_branch self w of
        Inl e \<Rightarrow> Inl e
      | Inr Observed \<Rightarrow> predict_proba self w
      | Inr Unseen \<Rightarrow> Inr (Val (epsilon_unseen_proba self
                                   * (1 / real_of_int (unseen_count self))))
      | Inr Fallback \<Rightarrow> Inr (Val 0))"
  by (simp add: predict_proba_def predict_proba_branch_def Let_def
           split: sum.splits option.splits)

lemma fallback_in_handmade_state:
  "predict_proba_branch
     \<lparr>vocab = Dlist [''a''], epsilon_unseen_proba = 1 / 10, total_count = 1,
      unseen_count = 0, count_V = Some [0]\<rparr> ''a'' = Inr Fallback"
  by (simp add: predict_proba_branch_def get_word_id_def)

text \<open>
  Claim C9. After a successful fit on a non-empty training list (\<open>total_count > 0\<close>),
  \<open>predict_proba\<close> on a vocabulary word never takes its last \<open>else\<close> branch. The word's
  lookup and the subscript succeed, and when the test \<open>ml > 0\<close> fails (in particular when
  \<open>ml == 0\<close>) the word's count is zero and \<open>unseen_count \<ge> 1\<close>, so the second test
  holds.
\<close>

theorem fallback_unreachable:
  assumes "set L \<subseteq> set (list_of_dlist (vocab self))" and "L \<noteq> []"
    and "w \<in> set (list_of_dlist (vocab self))"
  shows "0 < total_count (fst (fit self L))
    \<and> predict_proba_branch (fst (fit self L)) w \<noteq> Inr Fallback
    \<and> (\<exists>i cv. get_word_id (vocab (fst (fit self L))) w = Inr i
          \<and> count_V (fst (fit self L)) = Some cv \<and> i < length cv
          \<and> (\<not> np_gt_zero (np_true_divide (Val (cv ! i)) (total_count (fst (fit self L))))
               \<longrightarrow> cv ! i = 0 \<and> 1 \<le> unseen_count (fst (fit self L))))"
proof -
  let ?ws = "list_of_dlist (vocab self)"
  let ?cv = "map (\<lambda>w. real (count_list L w)) ?ws"
  from assms(3) obtain j where j: "get_word_id (vocab self) w = Inr j"
    "j < size_vocabulary (vocab self)" "?ws ! j = w"
    by (rule get_word_id_present)
  have t: "total_count (fst (fit self L)) = int (length L)"
    and c: "count_V (fst (fit self L)) = Some ?cv"
    and u: "unseen_count (fst (fit self L)) = int (length (filter (\<lambda>w. w \<notin> set L) ?ws))"
    by (simp_all add: fit_ok [OF assms(1)])
  have entry: "?cv ! j = real (count_list L w)"
    using j by (simp add: size_vocabulary_def)
  have "cv_j = 0 \<and> 1 \<le> unseen_count (fst (fit self L))"
    if "\<not> np_gt_zero (np_true_divide (Val cv_j) (total_count (fst (fit self L))))"
      and "cv_j = ?cv ! j" for cv_j
  proof -
    from that assms(2) have "count_list L w = 0"
      by (simp add: t entry zero_less_divide_iff)
    then have "w \<notin> set L" by (simp add: count_list_0_iff)
    from unseen_positive [OF assms(3) this] \<open>count_list L w = 0\<close> that(2) show ?thesis
      by (simp add: u entry Suc_le_eq)
  qed
  then have "\<not> np_gt_zero (np_true_divide (Val (?cv ! j)) (total_count (fst (fit self L))))
             \<longrightarrow> ?cv ! j = 0 \<and> 1 \<le> unseen_count (fst (fit self L))"
    by blast
  moreover have "get_word_id (vocab (fst (fit self L))) w = Inr j"
    using j by (simp add: vocab_fit)
  moreover have "j < length ?cv"
    using j by (simp add: size_vocabulary_def)
  ultimately have "\<exists>i cv. get_word_id (vocab (fst (fit self L))) w = Inr i
          \<and> count_V (fst (fit self L)) = Some cv \<and> i < length cv
          \<and> (\<not> np_gt_zero (np_true_divide (Val (cv ! i)) (total_count (fst (fit self L))))
               \<longrightarrow> cv ! i = 0 \<and> 1 \<le> unseen_count (fst (fit self L)))"
    using c by blast
  moreover have "predict_proba_branch (fst (fit self L)) w \<noteq> Inr Fallback"
    by (simp add: predict_proba_branch_fitted [OF assms(1,3)])
  moreover have "0 < total_count (fst (fit self L))"
    using assms(2) by (simp add: t)
  ultimately show ?thesis by blast
qed

theorem fallback_unreachable_witness:
  "set [''a'', ''b'', ''a''] \<subseteq> set (list_of_dlist (vocab (init (Dlist [''a'', ''b'', ''c'']) (1 / 10))))
   \<and> [''a'', ''b'', ''a''] \<noteq> []
   \<and> ''c'' \<in> set (list_of_dlist (vocab (init (Dlist [''a'', ''b'', ''c'']) (1 / 10))))
   \<and> predict_proba_branch
        (fst (fit (init (Dlist [''a'', ''b'', ''c'']) (1 / 10)) [''a'', ''b'', ''a''])) ''c''
       = Inr Unseen
   \<and> predict_proba_branch
        (fst (fit (init (Dlist [''a'', ''b'', ''c'']) (1 / 10)) [''a'', ''b'', ''a''])) ''c''
       \<noteq> Inr Fallback"
proof -
  have h1: "set [''a'', ''b'', ''a'']
            \<subseteq> set (list_of_dlist (vocab (init (Dlist [''a'', ''b'', ''c'']) (1 / 10))))"
    and h2: "[''a'', ''b'', ''a''] \<noteq> []"
    and h3: "''c'' \<in> set (list_of_dlist (vocab (init (Dlist [''a'', ''b'', ''c'']) (1 / 10))))"
    by (simp_all add: init_def)
  have b: "predict_proba_branch
        (fst (fit (init (Dlist [''a'', ''b'', ''c'']) (1 / 10)) [''a'', ''b'', ''a''])) ''c''
       = Inr Unseen"
    by (simp add: predict_proba_branch_def fit_def init_def get_word_id_def size_vocabulary_def)
  from fallback_unreachable [OF h1 h2 h3] h1 h2 h3 b show ?thesis
    by blast
qed

section \<open>After a fit on the empty list\<close>

text \<open>
  Claim C8, as amended. After a fit on the empty list, \<open>total_count\<close> is 0 and
  \<open>unseen_count\<close> is the size of the vocabulary. On a vocabulary word the division
  \<open>count_V[index] / total_count\<close> is the float64 division \<open>0.0 / 0\<close>, which yields NaN
  and does not raise; the test \<open>ml > 0\<close> is false, \<open>unseen_count > 0\<close> is true, and
  \<open>predict_proba\<close> returns \<open>epsilon * (1 / V)\<close> for the vocabulary size \<open>V\<close>.
\<close>

theorem predict_proba_after_empty_fit:
  assumes "w \<in> set (list_of_dlist (vocab self))"
  shows "total_count (fst (fit self [])) = 0
    \<and> unseen_count (fst (fit self [])) = int (size_vocabulary (vocab self))
    \<and> np_true_divide (Val 0) (total_count (fst (fit self []))) = NaN
    \<and> predict_proba (fst (fit self [])) w
        = Inr (Val (epsilon_unseen_proba self
                     * (1 / real (size_vocabulary (vocab self)))))"
proof -
  have e: "set [] \<subseteq> set (list_of_dlist (vocab self))" by simp
  have t: "total_count (fst (fit self [])) = 0"
    and u: "unseen_count (fst (fit self [])) = int (size_vocabulary (vocab self))"
    by (simp_all add: fit_ok [OF e] size_vocabulary_def)
  have "predict_proba (fst (fit self [])) w
        = Inr (Val (epsilon_unseen_proba self * (1 / real (size_vocabulary (vocab self)))))"
    by (simp add: predict_proba_fitted [OF e assms] size_vocabulary_def)
  with t u show ?thesis by simp
qed

theorem predict_proba_after_empty_fit_witness:
  "''b'' \<in> set (list_of_dlist (vocab (init (Dlist [''a'', ''b'', ''c'', ''d'']) (1 / 2))))
   \<and> total_count (fst (fit (init (Dlist [''a'', ''b'', ''c'', ''d'']) (1 / 2)) [])) = 0
   \<and> predict_proba (fst (fit (init (Dlist [''a'', ''b'', ''c'', ''d'']) (1 / 2)) [])) ''b''
       = Inr (Val (1 / 8))"
proof -
  have h: "''b'' \<in> set (list_of_dlist (vocab (init (Dlist [''a'', ''b'', ''c'', ''d'']) (1 / 2))))"
    by (simp add: init_def)
  from predict_proba_after_empty_fit [OF h] h show ?thesis
    by (simp add: init_def size_vocabulary_def)
qed

text \<open>
  The call does not fail: with the vocabulary \<open>{a, b}\<close> and epsilon \<open>0.1\<close>, after
  \<open>fit([])\<close> the call \<open>predict_proba('a')\<close> returns \<open>0.05\<close>.
\<close>

theorem predict_proba_after_empty_fit_counterexample:
  "total_count (fst (fit (init (Dlist [''a'', ''b'']) (1 / 10)) [])) = 0
   \<and> predict_proba (fst (fit (init (Dlist [''a'', ''b'']) (1 / 10)) [])) ''a''
       = Inr (Val (1 / 20))"
  by (simp add: predict_proba_def fit_def init_def get_word_id_def size_vocabulary_def)

section \<open>The probabilities as a mass function\<close>

lemma count_le_length: "count_list L w \<le> length L"
  by (induction L) auto

lemma sum_list_split:
  fixes f :: "'a \<Rightarrow> real"
  shows "sum_list (map f xs)
         = sum_list (map f (filter P xs)) + sum_list (map f (filter (\<lambda>x. \<not> P x) xs))"
  by (induction xs) auto

lemma observed_counts_sum:
  "sum_list (map (\<lambda>w. real (count_list L w)) (filter (\<lambda>w. w \<in> set L) ws))
   = sum_list (map (\<lambda>w. real (count_list L w)) ws)"
  by (induction ws) auto

lemma smoothed_observed_mass:
  assumes "set L \<subseteq> set (list_of_dlist (v::vocabulary))" and "L \<noteq> []"
  shows "sum_list (map (smoothed eps (list_of_dlist v) L)
                       (filter (\<lambda>w. w \<in> set L) (list_of_dlist v))) = 1 - eps"
proof -
  let ?ws = "list_of_dlist v"
  have "map (smoothed eps ?ws L) (filter (\<lambda>w. w \<in> set L) ?ws)
        = map (\<lambda>w. ((1 - eps) / real (length L)) * real (count_list L w))
              (filter (\<lambda>w. w \<in> set L) ?ws)"
    by (rule map_cong) (simp_all add: smoothed_def)
  then have "sum_list (map (smoothed eps ?ws L) (filter (\<lambda>w. w \<in> set L) ?ws))
        = ((1 - eps) / real (length L))
          * sum_list (map (\<lambda>w. real (count_list L w)) (filter (\<lambda>w. w \<in> set L) ?ws))"
    by (simp only: sum_list_const_mult)
  also have "\<dots> = ((1 - eps) / real (length L)) * real (length L)"
    by (simp only: observed_counts_sum counts_sum [OF assms(1)])
  also have "\<dots> = 1 - eps"
    using assms(2) by simp
  finally show ?thesis .
qed

lemma smoothed_unseen_mass:
  assumes "0 < length (filter (\<lambda>w. w \<notin> set L) ws)"
  shows "sum_list (map (smoothed eps ws L) (filter (\<lambda>w. w \<notin> set L) ws)) = eps"
proof -
  let ?u = "length (filter (\<lambda>w. w \<notin> set L) ws)"
  have "map (smoothed eps ws L) (filter (\<lambda>w. w \<notin> set L) ws)
        = map (\<lambda>w. eps * (1 / real ?u)) (filter (\<lambda>w. w \<notin> set L) ws)"
    by (rule map_cong) (simp_all add: smoothed_def)
  then have "sum_list (map (smoothed eps ws L) (filter (\<lambda>w. w \<notin> set L) ws))
        = real ?u * (eps * (1 / real ?u))"
    by (simp only: sum_list_triv)
  also have "\<dots> = eps"
    using assms by simp
  finally show ?thesis .
qed

lemma smoothed_range:
  assumes "0 \<le> eps" and "eps \<le> 1"
  shows "0 \<le> smoothed eps ws L w \<and> smoothed eps ws L w \<le> 1"
proof (cases "w \<in> set L")
  case True
  then have n: "0 < length L" by (cases L) auto
  define q where "q = real (count_list L w) / real (length L)"
  have q: "0 \<le> q" "q \<le> 1"
    using count_le_length [of L w] n by (simp_all add: q_def)
  have "(1 - eps) * q \<le> 1"
    using mult_le_one [of "1 - eps" q] assms q by simp
  moreover have "0 \<le> (1 - eps) * q"
    using assms q by simp
  moreover have "smoothed eps ws L w = (1 - eps) * q"
    using True by (simp add: smoothed_def q_def)
  ultimately show ?thesis by simp
next
  case False
  define r where "r = 1 / real (length (filter (\<lambda>w. w \<notin> set L) ws))"
  have r: "0 \<le> r" "r \<le> 1"
    by (cases "filter (\<lambda>w. w \<notin> set L) ws"; simp add: r_def)+
  have "eps * r \<le> 1"
    using mult_le_one [of eps r] assms r by simp
  moreover have "0 \<le> eps * r"
    using assms r by simp
  moreover have "smoothed eps ws L w = eps * r"
    using False by (simp add: smoothed_def r_def)
  ultimately show ?thesis by simp
qed

lemma predict_proba_smoothed:
  assumes "set L \<subseteq> set (list_of_dlist (vocab self))"
    and "w \<in> set (list_of_dlist (vocab self))"
  shows "predict_proba (fst (fit self L)) w
         = Inr (Val (smoothed (epsilon_unseen_proba self) (list_of_dlist (vocab self)) L w))"
  by (simp add: predict_proba_fitted [OF assms] smoothed_def)

text \<open>
  Where at least one vocabulary word stays unseen, and epsilon lies in [0, 1], the
  probabilities are a mass function: each lies in [0, 1], the observed words hold
  \<open>1 - epsilon\<close>, the unseen words hold \<open>epsilon\<close>, and the sum is 1.
\<close>

lemma pmf_when_some_word_unseen:
  assumes "set L \<subseteq> set (list_of_dlist (vocab self))" and "L \<noteq> []"
    and "0 \<le> epsilon_unseen_proba self" and "epsilon_unseen_proba self \<le> 1"
    and "0 < unseen_count (fst (fit self L))"
  shows "\<exists>p. (\<forall>w\<in>set (list_of_dlist (vocab self)).
                 predict_proba (fst (fit self L)) w = Inr (Val (p w)) \<and> 0 \<le> p w \<and> p w \<le> 1)
            \<and> sum_list (map p (list_of_dlist (vocab self))) = 1
            \<and> sum_list (map p (filter (\<lambda>w. w \<in> set L) (list_of_dlist (vocab self))))
                = 1 - epsilon_unseen_proba self
            \<and> sum_list (map p (filter (\<lambda>w. w \<notin> set L) (list_of_dlist (vocab self))))
                = epsilon_unseen_proba self"
proof -
  let ?ws = "list_of_dlist (vocab self)"
  let ?eps = "epsilon_unseen_proba self"
  let ?p = "smoothed ?eps ?ws L"
  from assms(5) have u: "0 < length (filter (\<lambda>w. w \<notin> set L) ?ws)"
    by (simp add: fit_ok [OF assms(1)])
  have vals: "\<forall>w\<in>set ?ws. predict_proba (fst (fit self L)) w = Inr (Val (?p w))
                  \<and> 0 \<le> ?p w \<and> ?p w \<le> 1"
    using predict_proba_smoothed [OF assms(1)] smoothed_range [OF assms(3,4)] by blast
  have observed: "sum_list (map ?p (filter (\<lambda>w. w \<in> set L) ?ws)) = 1 - ?eps"
    by (rule smoothed_observed_mass [OF assms(1,2)])
  have unseen: "sum_list (map ?p (filter (\<lambda>w. w \<notin> set L) ?ws)) = ?eps"
    by (rule smoothed_unseen_mass [OF u])
  have "sum_list (map ?p ?ws)
        = sum_list (map ?p (filter (\<lambda>w. w \<in> set L) ?ws))
          + sum_list (map ?p (filter (\<lambda>w. w \<notin> set L) ?ws))"
    by (rule sum_list_split)
  with observed unseen have total: "sum_list (map ?p ?ws) = 1" by simp
  from vals total observed unseen show ?thesis by blast
qed

text \<open>
  Claim C1. The sum of \<open>predict_proba\<close> over the vocabulary is not 1 when the training
  list contains every vocabulary word. Then \<open>unseen_count\<close> is 0, every word takes the
  first branch and is scaled by \<open>1 - epsilon\<close>, and no word receives the reserved mass:
  the probabilities sum to \<open>1 - epsilon\<close>. With the vocabulary \<open>{a}\<close>, epsilon \<open>0.1\<close>
  and \<open>fit([a])\<close> the only probability is \<open>0.9\<close>.
\<close>

theorem pmf_mass_lost_when_all_observed:
  assumes "set L \<subseteq> set (list_of_dlist (vocab self))" and "L \<noteq> []"
    and "set (list_of_dlist (vocab self)) \<subseteq> set L"
  shows "unseen_count (fst (fit self L)) = 0
    \<and> (\<exists>p. (\<forall>w\<in>set (list_of_dlist (vocab self)).
                 predict_proba (fst (fit self L)) w = Inr (Val (p w)))
            \<and> sum_list (map p (list_of_dlist (vocab self)))
                = 1 - epsilon_unseen_proba self)"
proof -
  let ?ws = "list_of_dlist (vocab self)"
  let ?eps = "epsilon_unseen_proba self"
  let ?p = "smoothed ?eps ?ws L"
  from assms(3) have none: "filter (\<lambda>w. w \<notin> set L) ?ws = []"
    and every: "filter (\<lambda>w. w \<in> set L) ?ws = ?ws"
    by (auto simp: filter_empty_conv filter_id_conv)
  have u: "unseen_count (fst (fit self L)) = 0"
    by (simp add: fit_ok [OF assms(1)] none)
  have vals: "\<forall>w\<in>set ?ws. predict_proba (fst (fit self L)) w = Inr (Val (?p w))"
    using predict_proba_smoothed [OF assms(1)] by blast
  have "sum_list (map ?p (filter (\<lambda>w. w \<in> set L) ?ws)) = 1 - ?eps"
    by (rule smoothed_observed_mass [OF assms(1,2)])
  then have total: "sum_list (map ?p ?ws) = 1 - ?eps"
    by (simp only: every)
  from u vals total show ?thesis by blast
qed

theorem pmf_mass_lost_when_all_observed_witness:
  "set [''a''] \<subseteq> set (list_of_dlist (vocab (init (Dlist [''a'']) (1 / 10))))
   \<and> [''a''] \<noteq> []
   \<and> set (list_of_dlist (vocab (init (Dlist [''a'']) (1 / 10)))) \<subseteq> set [''a'']
   \<and> map (predict_proba (fst (fit (init (Dlist [''a'']) (1 / 10)) [''a''])))
          (list_of_dlist (vocab (init (Dlist [''a'']) (1 / 10))))
       = [Inr (Val (9 / 10))]
   \<and> sum_list [9 / 10] \<noteq> (1::real)
   \<and> unseen_count (fst (fit (init (Dlist [''a'']) (1 / 10)) [''a''])) = 0
   \<and> (\<exists>p. (\<forall>w\<in>set (list_of_dlist (vocab (init (Dlist [''a'']) (1 / 10)))).
               predict_proba (fst (fit (init (Dlist [''a'']) (1 / 10)) [''a''])) w
                 = Inr (Val (p w)))
          \<and> sum_list (map p (list_of_dlist (vocab (init (Dlist [''a'']) (1 / 10)))))
              = 1 - epsilon_unseen_proba (init (Dlist [''a'']) (1 / 10)))"
proof -
  have h1: "set [''a''] \<subseteq> set (list_of_dlist (vocab (init (Dlist [''a'']) (1 / 10))))"
    and h2: "[''a''] \<noteq> []"
    and h3: "set (list_of_dlist (vocab (init (Dlist [''a'']) (1 / 10)))) \<subseteq> set [''a'']"
    by (simp_all add: init_def)
  have v: "map (predict_proba (fst (fit (init (Dlist [''a'']) (1 / 10)) [''a''])))
               (list_of_dlist (vocab (init (Dlist [''a'']) (1 / 10))))
           = [Inr (Val (9 / 10))]"
    by (simp add: predict_proba_def fit_def init_def get_word_id_def size_vocabulary_def)
  have n: "sum_list [9 / 10] \<noteq> (1::real)" by simp
  from pmf_mass_lost_when_all_observed [OF h1 h2 h3] h1 h2 h3 v n show ?thesis
    by blast
qed

section \<open>The score\<close>

lemma score_loop_finite:
  assumes "\<forall>w\<in>set wl. predict_proba s w = Inr (Val (p w)) \<and> 0 < p w"
  shows "score_loop s wl (Val t) = Inr (Val (t + sum_list (map (\<lambda>w. ln (p w)) wl)))"
  using assms by (induction wl arbitrary: t) (simp_all add: add.assoc)

text \<open>
  What \<open>score\<close> returns follows from the probabilities of the words: the mean of their
  logarithms while all are positive, and \<open>-inf\<close> as soon as one is zero.
\<close>

lemma score_of_positive_probabilities:
  assumes "\<forall>w\<in>set wl. predict_proba s w = Inr (Val (p w)) \<and> 0 < p w" and "wl \<noteq> []"
  shows "score s wl
         = Inr (Val (sum_list (map (\<lambda>w. ln (p w)) wl) / real (length wl)))"
  using score_loop_finite [OF assms(1), of 0] assms(2) by (simp add: score_def)

lemma score_of_zero_probability:
  "predict_proba s w = Inr (Val 0) \<Longrightarrow> score s [w] = Inr NegInf"
  by (simp add: score_def)


end
